theory Spec2Isabelle
  imports Main "HOL-Library.Word" "HOL-Library.Sublist" "HOL-Library.Multiset"
begin

section \<open>Request context and audit logging of the starter backend\<close>

text \<open>
  A shallow embedding of \<^verbatim>\<open>app/core/context.py\<close>, of
  \<^verbatim>\<open>RequestContextMiddleware.dispatch\<close> in \<^verbatim>\<open>app/core/middleware.py\<close>, of
  \<^verbatim>\<open>app/abstractions/audit_logger.py\<close> and of the table declared in
  \<^verbatim>\<open>app/models/audit_log.py\<close>.

  Strings are byte lists, read as code points 0 to 255. Exceptions are values of
  \<open>error\<close>; a function that can raise returns \<open>error + 'a\<close>. The ambient
  \<^verbatim>\<open>ContextVar\<close>, the table \<^verbatim>\<open>audit_logs\<close> and the output of the Python
  \<^verbatim>\<open>logging\<close> module are explicit state. Results of \<^verbatim>\<open>uuid4()\<close> and of
  \<^verbatim>\<open>datetime.now\<close>, and whether the database accepts a flush, are arguments.
  The type variable \<open>'j\<close> stands for the JSON mappings of \<^verbatim>\<open>old_values\<close> and
  \<^verbatim>\<open>new_values\<close>, which the code only passes along. A timestamp is an integer
  number of microseconds, the resolution of both \<^verbatim>\<open>datetime\<close> and the column.
\<close>

datatype error = ValueError | TypeError | ValidationError | RuntimeError | DBAPIError

subsection \<open>Python string operations used by the code\<close>

text \<open>\<^verbatim>\<open>str.isspace\<close> on the code points below 256.\<close>

definition py_isspace :: "char \<Rightarrow> bool" where
  "py_isspace c = ((of_char c :: nat) \<in> {9, 10, 11, 12, 13, 28, 29, 30, 31, 32, 133, 160})"

text \<open>\<^verbatim>\<open>s.strip()\<close> and \<^verbatim>\<open>s.strip(chars)\<close>.\<close>

definition py_strip :: "string \<Rightarrow> string" where
  "py_strip s = rev (dropWhile py_isspace (rev (dropWhile py_isspace s)))"

definition py_strip_chars :: "string \<Rightarrow> string \<Rightarrow> string" where
  "py_strip_chars cs s =
     rev (dropWhile (\<lambda>c. c \<in> set cs) (rev (dropWhile (\<lambda>c. c \<in> set cs) s)))"

text \<open>\<^verbatim>\<open>s.replace(pat, '')\<close>: occurrences are removed left to right, without overlap.\<close>

function py_remove :: "string \<Rightarrow> string \<Rightarrow> string" where
  "py_remove pat [] = []"
| "py_remove pat (c # cs) =
     (if pat \<noteq> [] \<and> take (length pat) (c # cs) = pat
      then py_remove pat (drop (length pat) (c # cs))
      else c # py_remove pat cs)"
  by pat_completeness auto
termination
  by (relation "measure (\<lambda>(pat, s). length s)") (auto simp: neq_Nil_conv)

text \<open>\<^verbatim>\<open>s.split(",")[0]\<close>: the part before the first comma, the whole string without one.\<close>

definition split_comma_first :: "string \<Rightarrow> string" where
  "split_comma_first s = takeWhile (\<lambda>c. c \<noteq> CHR '','') s"

text \<open>Truthiness of an \<^verbatim>\<open>Optional[str]\<close>: \<^verbatim>\<open>None\<close> and the empty string are false.\<close>

definition truthy :: "string option \<Rightarrow> bool" where
  "truthy x = (case x of None \<Rightarrow> False | Some s \<Rightarrow> s \<noteq> [])"

subsection \<open>The standard library's UUID\<close>

text \<open>
  A UUID is its 128-bit integer. \<^verbatim>\<open>UUID(s)\<close> removes \<^verbatim>\<open>urn:\<close> and
  \<^verbatim>\<open>uuid:\<close>, strips braces, removes hyphens, demands 32 characters and hands them to
  \<^verbatim>\<open>int(hex, 16)\<close>. That conversion skips surrounding whitespace, takes a sign and a
  \<^verbatim>\<open>0x\<close> prefix, and allows single underscores between digits; the scan below follows
  CPython's.
\<close>

type_synonym uuid = "128 word"

definition int_isspace :: "char \<Rightarrow> bool" where
  "int_isspace c = ((of_char c :: nat) \<in> {9, 10, 11, 12, 13, 32, 133, 160})"

definition digit_value :: "char \<Rightarrow> nat option" where
  "digit_value c =
     (let n = (of_char c :: nat) in
      if 48 \<le> n \<and> n \<le> 57 then Some (n - 48)
      else if 97 \<le> n \<and> n \<le> 122 then Some (n - 87)
      else if 65 \<le> n \<and> n \<le> 90 then Some (n - 55)
      else None)"

fun skip_sign :: "string \<Rightarrow> bool \<times> string" where
  "skip_sign [] = (False, [])"
| "skip_sign (c # r) =
     (if c = CHR ''+'' then (False, r)
      else if c = CHR ''-'' then (True, r)
      else (False, c # r))"

fun skip_prefix16 :: "string \<Rightarrow> string" where
  "skip_prefix16 (c # x # r) =
     (if c = CHR ''0'' \<and> (x = CHR ''x'' \<or> x = CHR ''X'')
      then (case r of [] \<Rightarrow> r | u # r' \<Rightarrow> if u = CHR ''_'' then r' else r)
      else c # x # r)"
| "skip_prefix16 s = s"

text \<open>
  The digit loop: \<open>prev\<close> is the character read last (\<open>None\<close> before the first), so
  that a leading, a doubled and a trailing underscore, and an empty digit string, fail.
\<close>

fun scan_digits16 :: "string \<Rightarrow> char option \<Rightarrow> int \<Rightarrow> (int \<times> string) option" where
  "scan_digits16 [] prev acc =
     (if prev = None \<or> prev = Some (CHR ''_'') then None else Some (acc, []))"
| "scan_digits16 (c # cs) prev acc =
     (if c = CHR ''_''
      then (if prev = None \<or> prev = Some (CHR ''_'') then None
            else scan_digits16 cs (Some c) acc)
      else (case digit_value c of
              None \<Rightarrow> (if prev = None \<or> prev = Some (CHR ''_'') then None
                        else Some (acc, c # cs))
            | Some d \<Rightarrow>
                if d < 16 then scan_digits16 cs (Some c) (16 * acc + int d)
                else if prev = None \<or> prev = Some (CHR ''_'') then None
                else Some (acc, c # cs)))"

definition py_int16 :: "string \<Rightarrow> int option" where
  "py_int16 s =
     (case skip_sign (dropWhile int_isspace s) of
        (neg, s2) \<Rightarrow>
          (case scan_digits16 (skip_prefix16 s2) None 0 of
             None \<Rightarrow> None
           | Some (v, rest) \<Rightarrow>
               if dropWhile int_isspace rest = [] then Some (if neg then - v else v)
               else None))"

definition UUID_of_hex :: "string \<Rightarrow> uuid option" where
  "UUID_of_hex hex =
     (if length hex \<noteq> 32 then None
      else (case py_int16 hex of
              None \<Rightarrow> None
            | Some i \<Rightarrow> if 0 \<le> i \<and> i < 2 ^ 128 then Some (word_of_int i) else None))"

text \<open>\<^verbatim>\<open>UUID(s)\<close>; \<open>None\<close> is the \<^verbatim>\<open>ValueError\<close>.\<close>

definition UUID :: "string \<Rightarrow> uuid option" where
  "UUID s = UUID_of_hex (py_remove ''-'' (py_strip_chars ''{}''
               (py_remove ''uuid:'' (py_remove ''urn:'' s))))"

definition hex_char :: "nat \<Rightarrow> char" where
  "hex_char d = ''0123456789abcdef'' ! d"

fun hex_digits :: "nat \<Rightarrow> nat \<Rightarrow> string" where
  "hex_digits 0 n = []"
| "hex_digits (Suc k) n = hex_digits k (n div 16) @ [hex_char (n mod 16)]"

text \<open>\<^verbatim>\<open>str(u)\<close>: 32 lower-case hex digits in groups of 8, 4, 4, 4 and 12.\<close>

definition str_uuid :: "uuid \<Rightarrow> string" where
  "str_uuid u =
     (let hex = hex_digits 32 (unat u)
      in take 8 hex @ ''-'' @ take 4 (drop 8 hex) @ ''-'' @ take 4 (drop 12 hex) @ ''-''
         @ take 4 (drop 16 hex) @ ''-'' @ drop 20 hex)"

subsection \<open>Request context (\<^verbatim>\<open>app/core/context.py\<close>)\<close>

record RequestContext =
  ctx_request_id :: string
  ctx_tenant_id :: string
  ctx_user_id :: "string option"
  ctx_user_email :: "string option"
  ctx_user_roles :: "string list"
  ctx_session_id :: "string option"
  ctx_client_ip :: "string option"
  ctx_user_agent :: "string option"

text \<open>The value of \<^verbatim>\<open>_request_context\<close> seen by one logical request; its default is \<^verbatim>\<open>None\<close>.\<close>

type_synonym context_var = "RequestContext option"

definition set_request_context :: "RequestContext \<Rightarrow> context_var \<Rightarrow> context_var" where
  "set_request_context ctx var = Some ctx"

definition get_request_context :: "context_var \<Rightarrow> error + RequestContext" where
  "get_request_context var = (case var of None \<Rightarrow> Inl RuntimeError | Some ctx \<Rightarrow> Inr ctx)"

definition get_optional_request_context :: "context_var \<Rightarrow> RequestContext option" where
  "get_optional_request_context var = var"

subsection \<open>Establishing the context (\<^verbatim>\<open>RequestContextMiddleware.dispatch\<close>)\<close>

text \<open>
  Of a request the middleware reads the headers (looked up by name) and the host of the
  peer address, absent when the transport gives none.
\<close>

record Request =
  headers :: "string \<rightharpoonup> string"
  client :: "string option"

definition headers_get :: "Request \<Rightarrow> string \<Rightarrow> string \<Rightarrow> string" where
  "headers_get request name dflt = (case headers request name of None \<Rightarrow> dflt | Some v \<Rightarrow> v)"

text \<open>
  \<open>dispatch request u var\<close>, with \<open>u\<close> the result of \<^verbatim>\<open>uuid.uuid4()\<close>, returns the
  context variable as the handler called by \<^verbatim>\<open>call_next\<close> finds it, and the value of
  the response header \<^verbatim>\<open>X-Request-ID\<close>.
\<close>

definition dispatch :: "Request \<Rightarrow> uuid \<Rightarrow> context_var \<Rightarrow> context_var \<times> string" where
  "dispatch request u var =
     (let request_id = headers_get request ''X-Request-ID'' (str_uuid u);
          tenant_id = headers_get request ''X-Tenant-ID'' ''default'';
          client_ip = (case client request of None \<Rightarrow> None | Some host \<Rightarrow> Some host);
          forwarded_for = headers request ''X-Forwarded-For'';
          client_ip = (if truthy forwarded_for
                       then (case forwarded_for of
                               None \<Rightarrow> client_ip
                             | Some v \<Rightarrow> Some (py_strip (split_comma_first v)))
                       else client_ip);
          ctx = \<lparr>ctx_request_id = request_id, ctx_tenant_id = tenant_id, ctx_user_id = None,
                 ctx_user_email = None, ctx_user_roles = [], ctx_session_id = None,
                 ctx_client_ip = client_ip,
                 ctx_user_agent = headers request ''User-Agent''\<rparr>
      in (set_request_context ctx var, request_id))"

subsection \<open>Audit entries (\<^verbatim>\<open>AuditEntry\<close>)\<close>

datatype AuditAction =
  CREATE | READ | UPDATE | DELETE | LOGIN | LOGOUT | LOGIN_FAILED | EXPORT | IMPORT
  | GRANT_ACCESS | REVOKE_ACCESS

datatype DataClassification = PUBLIC | INTERNAL | CONFIDENTIAL | RESTRICTED

fun AuditAction_value :: "AuditAction \<Rightarrow> string" where
  "AuditAction_value CREATE = ''create''"
| "AuditAction_value READ = ''read''"
| "AuditAction_value UPDATE = ''update''"
| "AuditAction_value DELETE = ''delete''"
| "AuditAction_value LOGIN = ''login''"
| "AuditAction_value LOGOUT = ''logout''"
| "AuditAction_value LOGIN_FAILED = ''login_failed''"
| "AuditAction_value EXPORT = ''export''"
| "AuditAction_value IMPORT = ''import''"
| "AuditAction_value GRANT_ACCESS = ''grant_access''"
| "AuditAction_value REVOKE_ACCESS = ''revoke_access''"

fun DataClassification_value :: "DataClassification \<Rightarrow> string" where
  "DataClassification_value PUBLIC = ''public''"
| "DataClassification_value INTERNAL = ''internal''"
| "DataClassification_value CONFIDENTIAL = ''confidential''"
| "DataClassification_value RESTRICTED = ''restricted''"

text \<open>\<^verbatim>\<open>AuditAction(s)\<close> and \<^verbatim>\<open>DataClassification(s)\<close>: the member with that value.\<close>

definition AuditAction_of_value :: "string \<Rightarrow> error + AuditAction" where
  "AuditAction_of_value s =
     (case find (\<lambda>a. AuditAction_value a = s)
             [CREATE, READ, UPDATE, DELETE, LOGIN, LOGOUT, LOGIN_FAILED, EXPORT, IMPORT,
              GRANT_ACCESS, REVOKE_ACCESS] of
        None \<Rightarrow> Inl ValueError
      | Some a \<Rightarrow> Inr a)"

definition DataClassification_of_value :: "string \<Rightarrow> error + DataClassification" where
  "DataClassification_of_value s =
     (case find (\<lambda>c. DataClassification_value c = s)
             [PUBLIC, INTERNAL, CONFIDENTIAL, RESTRICTED] of
        None \<Rightarrow> Inl ValueError
      | Some c \<Rightarrow> Inr c)"

record 'j AuditEntry =
  actor_id :: string
  actor_type :: string
  actor_ip :: "string option"
  action :: AuditAction
  action_detail :: "string option"
  resource_type :: string
  resource_id :: string
  tenant_id :: string
  request_id :: string
  session_id :: "string option"
  timestamp :: int
  old_values :: "'j option"
  new_values :: "'j option"
  success :: bool
  error_message :: "string option"
  data_classification :: DataClassification

text \<open>
  Keyword arguments of the constructor, each absent (\<open>None\<close>) or given. An optional
  field can be given the value \<^verbatim>\<open>None\<close>, hence the nested options. The arguments are
  typed as the fields are; a keyword that names no field, which the model class ignores,
  has no counterpart here.
\<close>

record 'j kwargs =
  kw_actor_id :: "string option"
  kw_actor_type :: "string option"
  kw_actor_ip :: "string option option"
  kw_action :: "AuditAction option"
  kw_action_detail :: "string option option"
  kw_resource_type :: "string option"
  kw_resource_id :: "string option"
  kw_tenant_id :: "string option"
  kw_request_id :: "string option"
  kw_session_id :: "string option option"
  kw_timestamp :: "int option"
  kw_old_values :: "'j option option"
  kw_new_values :: "'j option option"
  kw_success :: "bool option"
  kw_error_message :: "string option option"
  kw_data_classification :: "DataClassification option"

text \<open>What the two \<^verbatim>\<open>default_factory\<close> calls return: \<^verbatim>\<open>uuid4()\<close> and the current time.\<close>

record factories =
  fresh_request_id :: uuid
  now :: int

definition dflt :: "'a option \<Rightarrow> 'a \<Rightarrow> 'a" where
  "dflt given d = (case given of None \<Rightarrow> d | Some v \<Rightarrow> v)"

text \<open>
  \<^verbatim>\<open>AuditEntry(**kw)\<close>: a missing required field (\<^verbatim>\<open>actor_id\<close>, \<^verbatim>\<open>action\<close>,
  \<^verbatim>\<open>resource_type\<close>, \<^verbatim>\<open>resource_id\<close>, \<^verbatim>\<open>tenant_id\<close>) is a validation error;
  the others take their declared defaults.
\<close>

definition AuditEntry_init :: "factories \<Rightarrow> 'j kwargs \<Rightarrow> error + 'j AuditEntry" where
  "AuditEntry_init f kw =
     (case (kw_actor_id kw, kw_action kw, kw_resource_type kw, kw_resource_id kw,
            kw_tenant_id kw) of
        (Some a, Some act, Some rt, Some rid, Some t) \<Rightarrow>
          Inr \<lparr>actor_id = a,
               actor_type = dflt (kw_actor_type kw) ''user'',
               actor_ip = dflt (kw_actor_ip kw) None,
               action = act,
               action_detail = dflt (kw_action_detail kw) None,
               resource_type = rt,
               resource_id = rid,
               tenant_id = t,
               request_id = dflt (kw_request_id kw) (str_uuid (fresh_request_id f)),
               session_id = dflt (kw_session_id kw) None,
               timestamp = dflt (kw_timestamp kw) (now f),
               old_values = dflt (kw_old_values kw) None,
               new_values = dflt (kw_new_values kw) None,
               success = dflt (kw_success kw) True,
               error_message = dflt (kw_error_message kw) None,
               data_classification = dflt (kw_data_classification kw) INTERNAL\<rparr>
      | _ \<Rightarrow> Inl ValidationError)"

text \<open>\<^verbatim>\<open>x or "anonymous"\<close>.\<close>

definition or_anonymous :: "string option \<Rightarrow> string" where
  "or_anonymous x = (if truthy x then (case x of None \<Rightarrow> ''anonymous'' | Some s \<Rightarrow> s)
                     else ''anonymous'')"

text \<open>
  \<^verbatim>\<open>AuditEntry.from_context(action, resource_type, resource_id, **kwargs)\<close>. A call
  \<^verbatim>\<open>cls(a=x, **kwargs)\<close> with \<^verbatim>\<open>a\<close> also in \<^verbatim>\<open>kwargs\<close> raises
  \<^verbatim>\<open>TypeError\<close> (multiple values for a keyword argument) before the class is entered;
  \<open>given_with_context\<close> and \<open>given_without_context\<close> list the keywords written out in
  each branch.
\<close>

definition given_with_context :: "'j kwargs \<Rightarrow> bool" where
  "given_with_context kw =
     (kw_actor_id kw \<noteq> None \<or> kw_actor_ip kw \<noteq> None \<or> kw_action kw \<noteq> None
      \<or> kw_resource_type kw \<noteq> None \<or> kw_resource_id kw \<noteq> None \<or> kw_tenant_id kw \<noteq> None
      \<or> kw_request_id kw \<noteq> None \<or> kw_session_id kw \<noteq> None)"

definition given_without_context :: "'j kwargs \<Rightarrow> bool" where
  "given_without_context kw =
     (kw_action kw \<noteq> None \<or> kw_resource_type kw \<noteq> None \<or> kw_resource_id kw \<noteq> None)"

definition from_context ::
  "context_var \<Rightarrow> factories \<Rightarrow> AuditAction \<Rightarrow> string \<Rightarrow> string \<Rightarrow> 'j kwargs
   \<Rightarrow> error + 'j AuditEntry" where
  "from_context var f act rtype rid kw =
     (case get_optional_request_context var of
        Some ctx \<Rightarrow>
          if given_with_context kw then Inl TypeError
          else AuditEntry_init f
                 (kw\<lparr>kw_actor_id := Some (or_anonymous (ctx_user_id ctx)),
                     kw_actor_ip := Some (ctx_client_ip ctx),
                     kw_action := Some act,
                     kw_resource_type := Some rtype,
                     kw_resource_id := Some rid,
                     kw_tenant_id := Some (ctx_tenant_id ctx),
                     kw_request_id := Some (ctx_request_id ctx),
                     kw_session_id := Some (ctx_session_id ctx)\<rparr>)
      | None \<Rightarrow>
          if given_without_context kw then Inl TypeError
          else AuditEntry_init f
                 (kw\<lparr>kw_action := Some act,
                     kw_resource_type := Some rtype,
                     kw_resource_id := Some rid\<rparr>))"

subsection \<open>The table \<^verbatim>\<open>audit_logs\<close> (\<^verbatim>\<open>AuditLog\<close>)\<close>

text \<open>
  A row holds the columns with the types the ORM class declares: UUID columns hold UUIDs,
  \<^verbatim>\<open>action\<close> and \<^verbatim>\<open>data_classification\<close> are strings. The length limits of the
  string columns and the primary key are enforced by the database at flush time; whether
  a flush is accepted is an argument of \<open>DatabaseAuditLogger_log\<close>.
\<close>

record 'j AuditLog =
  log_id :: uuid
  log_actor_id :: uuid
  log_actor_type :: string
  log_actor_ip :: "string option"
  log_action :: string
  log_action_detail :: "string option"
  log_resource_type :: string
  log_resource_id :: string
  log_tenant_id :: uuid
  log_request_id :: uuid
  log_session_id :: "uuid option"
  log_timestamp :: int
  log_old_values :: "'j option"
  log_new_values :: "'j option"
  log_success :: bool
  log_error_message :: "string option"
  log_data_classification :: string

datatype level = INFO | WARNING

text \<open>A record emitted through the module's logger; the \<^verbatim>\<open>extra\<close> mapping is left out.\<close>

record LogRecord =
  levelname :: level
  msg :: string

text \<open>
  What the persistent logger works on: the rows of the table in insertion order, as seen
  through the session, and what the Python logger has emitted so far.
\<close>

record 'j db_state =
  audit_logs :: "'j AuditLog list"
  emitted :: "LogRecord list"

subsection \<open>\<^verbatim>\<open>DatabaseAuditLogger\<close>\<close>

text \<open>
  What \<^verbatim>\<open>log\<close> draws from its environment: the \<^verbatim>\<open>uuid4()\<close> of the anonymous
  actor, the \<^verbatim>\<open>uuid4\<close> default of the primary key, and whether the flush succeeds.
\<close>

record log_env =
  uuid4_actor :: uuid
  uuid4_id :: uuid
  flush_ok :: bool

text \<open>\<^verbatim>\<open>UUID(entry.session_id) if entry.session_id else None\<close>.\<close>

definition session_uuid :: "string option \<Rightarrow> error + uuid option" where
  "session_uuid x =
     (if truthy x
      then (case x of
              None \<Rightarrow> Inr None
            | Some s \<Rightarrow> (case UUID s of None \<Rightarrow> Inl ValueError | Some u \<Rightarrow> Inr (Some u)))
      else Inr None)"

text \<open>\<^verbatim>\<open>UUID(entry.actor_id) if entry.actor_id != "anonymous" else uuid4()\<close>.\<close>

definition actor_uuid :: "log_env \<Rightarrow> string \<Rightarrow> error + uuid" where
  "actor_uuid env a =
     (if a \<noteq> ''anonymous''
      then (case UUID a of None \<Rightarrow> Inl ValueError | Some u \<Rightarrow> Inr u)
      else Inr (uuid4_actor env))"

text \<open>
  \<^verbatim>\<open>DatabaseAuditLogger.log\<close>. The row is built first, its keyword arguments evaluated
  in the order written; then it is added and flushed; then the logger reports; the
  result is the text of the new id. An exception leaves no new state.
\<close>

definition DatabaseAuditLogger_log ::
  "'j db_state \<Rightarrow> log_env \<Rightarrow> 'j AuditEntry \<Rightarrow> error + (string \<times> 'j db_state)" where
  "DatabaseAuditLogger_log s env entry =
     (case actor_uuid env (actor_id entry) of
        Inl e \<Rightarrow> Inl e
      | Inr actor \<Rightarrow>
     (case UUID (tenant_id entry) of
        None \<Rightarrow> Inl ValueError
      | Some tenant \<Rightarrow>
     (case UUID (request_id entry) of
        None \<Rightarrow> Inl ValueError
      | Some request \<Rightarrow>
     (case session_uuid (session_id entry) of
        Inl e \<Rightarrow> Inl e
      | Inr session \<Rightarrow>
          let audit_log =
                \<lparr>log_id = uuid4_id env,
                 log_actor_id = actor,
                 log_actor_type = actor_type entry,
                 log_actor_ip = actor_ip entry,
                 log_action = AuditAction_value (action entry),
                 log_action_detail = action_detail entry,
                 log_resource_type = resource_type entry,
                 log_resource_id = resource_id entry,
                 log_tenant_id = tenant,
                 log_request_id = request,
                 log_session_id = session,
                 log_timestamp = timestamp entry,
                 log_old_values = old_values entry,
                 log_new_values = new_values entry,
                 log_success = success entry,
                 log_error_message = error_message entry,
                 log_data_classification = DataClassification_value (data_classification entry)\<rparr>
          in if \<not> flush_ok env then Inl DBAPIError
             else Inr (str_uuid (log_id audit_log),
                       s\<lparr>audit_logs := audit_logs s @ [audit_log],
                         emitted := emitted s @ [\<lparr>levelname = INFO, msg = ''Audit logged''\<rparr>]\<rparr>)))))"

text \<open>
  The \<^verbatim>\<open>where\<close> clauses of \<^verbatim>\<open>query\<close>. A clause guarded by \<^verbatim>\<open>if x:\<close> is added
  when \<open>x\<close> is truthy: a string filter that is \<^verbatim>\<open>None\<close> or empty adds none, an
  action or a time that is given always adds one.
\<close>

definition where_str :: "string option \<Rightarrow> (string \<Rightarrow> 'r \<Rightarrow> bool) \<Rightarrow> ('r \<Rightarrow> bool) list" where
  "where_str x p = (if truthy x then (case x of None \<Rightarrow> [] | Some v \<Rightarrow> [p v]) else [])"

definition where_opt :: "'a option \<Rightarrow> ('a \<Rightarrow> 'r \<Rightarrow> bool) \<Rightarrow> ('r \<Rightarrow> bool) list" where
  "where_opt x p = (case x of None \<Rightarrow> [] | Some v \<Rightarrow> [p v])"

definition where_actor :: "string option \<Rightarrow> error + ('j AuditLog \<Rightarrow> bool) list" where
  "where_actor x =
     (if truthy x
      then (case x of
              None \<Rightarrow> Inr []
            | Some a \<Rightarrow> (case UUID a of
                          None \<Rightarrow> Inl ValueError
                        | Some u \<Rightarrow> Inr [\<lambda>r. log_actor_id r = u]))
      else Inr [])"

text \<open>
  Executing the statement: the rows satisfying every clause, by descending timestamp,
  then \<^verbatim>\<open>OFFSET\<close> and \<^verbatim>\<open>LIMIT\<close>, which the database refuses when negative. Rows of
  equal timestamp come in an order the database is free to choose; here they keep their
  insertion order.
\<close>

definition execute ::
  "'j AuditLog list \<Rightarrow> ('j AuditLog \<Rightarrow> bool) list \<Rightarrow> int \<Rightarrow> int \<Rightarrow> error + 'j AuditLog list" where
  "execute table wheres offset limit =
     (if offset < 0 \<or> limit < 0 then Inl DBAPIError
      else Inr (take (nat limit) (drop (nat offset)
                  (sort_key (\<lambda>r. - log_timestamp r)
                     (filter (\<lambda>r. list_all (\<lambda>p. p r) wheres) table)))))"

text \<open>One element of the returned list: \<^verbatim>\<open>AuditEntry(actor_id=str(log.actor_id), ...)\<close>.\<close>

definition entry_of_log :: "'j AuditLog \<Rightarrow> error + 'j AuditEntry" where
  "entry_of_log r =
     (case AuditAction_of_value (log_action r) of
        Inl e \<Rightarrow> Inl e
      | Inr act \<Rightarrow>
     (case DataClassification_of_value (log_data_classification r) of
        Inl e \<Rightarrow> Inl e
      | Inr cls \<Rightarrow>
          Inr \<lparr>actor_id = str_uuid (log_actor_id r),
               actor_type = log_actor_type r,
               actor_ip = log_actor_ip r,
               action = act,
               action_detail = log_action_detail r,
               resource_type = log_resource_type r,
               resource_id = log_resource_id r,
               tenant_id = str_uuid (log_tenant_id r),
               request_id = str_uuid (log_request_id r),
               session_id = (case log_session_id r of None \<Rightarrow> None
                             | Some u \<Rightarrow> Some (str_uuid u)),
               timestamp = log_timestamp r,
               old_values = log_old_values r,
               new_values = log_new_values r,
               success = log_success r,
               error_message = log_error_message r,
               data_classification = cls\<rparr>))"

fun entries_of_logs :: "'j AuditLog list \<Rightarrow> error + 'j AuditEntry list" where
  "entries_of_logs [] = Inr []"
| "entries_of_logs (r # rs) =
     (case entry_of_log r of
        Inl e \<Rightarrow> Inl e
      | Inr x \<Rightarrow> (case entries_of_logs rs of Inl e \<Rightarrow> Inl e | Inr xs \<Rightarrow> Inr (x # xs)))"

text \<open>\<^verbatim>\<open>DatabaseAuditLogger.query\<close>. It reads the table and changes nothing.\<close>

definition DatabaseAuditLogger_query ::
  "'j db_state \<Rightarrow> string \<Rightarrow> string option \<Rightarrow> string option \<Rightarrow> string option
   \<Rightarrow> AuditAction option \<Rightarrow> int option \<Rightarrow> int option \<Rightarrow> int \<Rightarrow> int
   \<Rightarrow> error + 'j AuditEntry list" where
  "DatabaseAuditLogger_query s tenant actor rtype rid act start_time end_time limit offset =
     (case UUID tenant of
        None \<Rightarrow> Inl ValueError
      | Some t \<Rightarrow>
     (case where_actor actor of
        Inl e \<Rightarrow> Inl e
      | Inr actor_clause \<Rightarrow>
          let stmt = [\<lambda>r. log_tenant_id r = t]
                     @ actor_clause
                     @ where_str rtype (\<lambda>v r. log_resource_type r = v)
                     @ where_str rid (\<lambda>v r. log_resource_id r = v)
                     @ where_opt act (\<lambda>a r. log_action r = AuditAction_value a)
                     @ where_opt start_time (\<lambda>t0 r. log_timestamp r \<ge> t0)
                     @ where_opt end_time (\<lambda>t1 r. log_timestamp r \<le> t1)
          in (case execute (audit_logs s) stmt offset limit of
                Inl e \<Rightarrow> Inl e
              | Inr logs \<Rightarrow> entries_of_logs logs)))"

subsection \<open>\<^verbatim>\<open>LoggingAuditLogger\<close>\<close>

text \<open>The state of the fallback logger is the logger's output alone.\<close>

definition LoggingAuditLogger_log ::
  "LogRecord list \<Rightarrow> uuid \<Rightarrow> 'j AuditEntry \<Rightarrow> string \<times> LogRecord list" where
  "LoggingAuditLogger_log out u entry =
     (str_uuid u, out @ [\<lparr>levelname = INFO, msg = ''AUDIT''\<rparr>])"

text \<open>The filters of \<^verbatim>\<open>query(self, tenant_id, **kwargs)\<close>, passed by keyword.\<close>

record query_kwargs =
  q_actor_id :: "string option"
  q_resource_type :: "string option"
  q_resource_id :: "string option"
  q_action :: "AuditAction option"
  q_start_time :: "int option"
  q_end_time :: "int option"
  q_limit :: "int option"
  q_offset :: "int option"

definition LoggingAuditLogger_query ::
  "LogRecord list \<Rightarrow> string \<Rightarrow> query_kwargs \<Rightarrow> 'j AuditEntry list \<times> LogRecord list" where
  "LoggingAuditLogger_query out tenant kw =
     ([], out @ [\<lparr>levelname = WARNING,
                  msg = ''Audit query not supported for LoggingAuditLogger''\<rparr>])"

subsection \<open>Calls on the persistent logger\<close>

text \<open>
  The interface \<^verbatim>\<open>AuditLogger\<close> has two methods. A call sequence is run from left to
  right; a call that raises leaves the state as it was.
\<close>

datatype 'j api_call =
  Log log_env "'j AuditEntry"
| Query string "string option" "string option" "string option" "AuditAction option"
    "int option" "int option" int int

fun api_step :: "'j db_state \<Rightarrow> 'j api_call \<Rightarrow> 'j db_state" where
  "api_step s (Log env entry) =
     (case DatabaseAuditLogger_log s env entry of Inl e \<Rightarrow> s | Inr (i, s') \<Rightarrow> s')"
| "api_step s (Query tenant actor rtype rid act t0 t1 limit offset) = s"

definition api_run :: "'j db_state \<Rightarrow> 'j api_call list \<Rightarrow> 'j db_state" where
  "api_run s calls = foldl api_step s calls"

subsection \<open>Example data\<close>

text \<open>
  Two tenants, an actor and a request, all in the canonical text form of a UUID, and the
  first tenant written once more in upper case.
\<close>

abbreviation alpha :: string where
  "alpha \<equiv> ''aaaaaaaa-aaaa-4aaa-8aaa-aaaaaaaaaaaa''"

abbreviation ALPHA :: string where
  "ALPHA \<equiv> ''AAAAAAAA-AAAA-4AAA-8AAA-AAAAAAAAAAAA''"

abbreviation beta :: string where
  "beta \<equiv> ''bbbbbbbb-bbbb-4bbb-8bbb-bbbbbbbbbbbb''"

abbreviation carol :: string where
  "carol \<equiv> ''cccccccc-cccc-4ccc-8ccc-cccccccccccc''"

abbreviation req1 :: string where
  "req1 \<equiv> ''dddddddd-dddd-4ddd-8ddd-dddddddddddd''"

definition no_kwargs :: "'j kwargs" where
  "no_kwargs =
     \<lparr>kw_actor_id = None, kw_actor_type = None, kw_actor_ip = None, kw_action = None,
      kw_action_detail = None, kw_resource_type = None, kw_resource_id = None,
      kw_tenant_id = None, kw_request_id = None, kw_session_id = None, kw_timestamp = None,
      kw_old_values = None, kw_new_values = None, kw_success = None,
      kw_error_message = None, kw_data_classification = None\<rparr>"

text \<open>An update of a document by \<open>who\<close> in \<open>tenant\<close> at time \<open>ts\<close>.\<close>

definition example_entry :: "string \<Rightarrow> string \<Rightarrow> int \<Rightarrow> string AuditEntry" where
  "example_entry who tenant ts =
     \<lparr>actor_id = who, actor_type = ''user'', actor_ip = Some ''10.0.0.1'',
      action = UPDATE, action_detail = None, resource_type = ''document'',
      resource_id = ''doc-1'', tenant_id = tenant, request_id = req1,
      session_id = None, timestamp = ts, old_values = Some ''title=a'',
      new_values = Some ''title=b'', success = True, error_message = None,
      data_classification = CONFIDENTIAL\<rparr>"

definition example_env :: "uuid \<Rightarrow> log_env" where
  "example_env i = \<lparr>uuid4_actor = 0xeeeeeeeeeeee4eee8eeeeeeeeeeeeeee, uuid4_id = i, flush_ok = True\<rparr>"

definition empty_db :: "string db_state" where
  "empty_db = \<lparr>audit_logs = [], emitted = []\<rparr>"

text \<open>The row that logging \<open>example_entry carol tenant ts\<close> appends, with id \<open>i\<close>.\<close>

definition example_row :: "uuid \<Rightarrow> uuid \<Rightarrow> int \<Rightarrow> string AuditLog" where
  "example_row i tenant ts =
     \<lparr>log_id = i, log_actor_id = 0xcccccccccccc4ccc8ccccccccccccccc,
      log_actor_type = ''user'', log_actor_ip = Some ''10.0.0.1'',
      log_action = ''update'', log_action_detail = None,
      log_resource_type = ''document'', log_resource_id = ''doc-1'',
      log_tenant_id = tenant,
      log_request_id = 0xdddddddddddd4ddd8ddddddddddddddd,
      log_session_id = None, log_timestamp = ts,
      log_old_values = Some ''title=a'', log_new_values = Some ''title=b'',
      log_success = True, log_error_message = None,
      log_data_classification = ''confidential''\<rparr>"

text \<open>
  Three entries of tenant \<open>alpha\<close> at times 0, 60 and 120 and one of tenant
  \<open>beta\<close> at time 100, logged in this order into an empty table.
\<close>

definition example_db :: "string db_state" where
  "example_db =
     api_run empty_db
       [Log (example_env 1) (example_entry carol alpha 0),
        Log (example_env 2) (example_entry carol alpha 60),
        Log (example_env 3) (example_entry carol beta 100),
        Log (example_env 4) (example_entry carol alpha 120)]"

subsection \<open>The filter as the specification words it\<close>

text \<open>
  A string filter counts as supplied when it is given and not empty.
\<close>

definition supplied :: "string option \<Rightarrow> string option" where
  "supplied x = (case x of None \<Rightarrow> None | Some v \<Rightarrow> if v = [] then None else Some v)"

text \<open>
  A row is selected when it belongs to the tenant and meets every supplied filter; the
  two times bound an inclusive window.
\<close>

definition selected ::
  "uuid \<Rightarrow> uuid option \<Rightarrow> string option \<Rightarrow> string option \<Rightarrow> AuditAction option
   \<Rightarrow> int option \<Rightarrow> int option \<Rightarrow> 'j AuditLog \<Rightarrow> bool" where
  "selected t actor rtype rid act t0 t1 r =
     (log_tenant_id r = t
      \<and> (case actor of None \<Rightarrow> True | Some a \<Rightarrow> log_actor_id r = a)
      \<and> (case rtype of None \<Rightarrow> True | Some v \<Rightarrow> log_resource_type r = v)
      \<and> (case rid of None \<Rightarrow> True | Some v \<Rightarrow> log_resource_id r = v)
      \<and> (case act of None \<Rightarrow> True | Some a \<Rightarrow> log_action r = AuditAction_value a)
      \<and> (case t0 of None \<Rightarrow> True | Some x \<Rightarrow> x \<le> log_timestamp r)
      \<and> (case t1 of None \<Rightarrow> True | Some x \<Rightarrow> log_timestamp r \<le> x))"

section \<open>Properties\<close>

subsection \<open>Evaluation of the example data\<close>

lemma hex_digits_numeral:
  "hex_digits (numeral k) n = hex_digits (pred_numeral k) (n div 16) @ [hex_char (n mod 16)]"
proof -
  have "hex_digits (numeral k) n = hex_digits (Suc (pred_numeral k)) n"
    by (simp only: numeral_eq_Suc)
  then show ?thesis
    by (simp only: hex_digits.simps)
qed

lemma UUID_alpha: "UUID alpha = Some 0xaaaaaaaaaaaa4aaa8aaaaaaaaaaaaaaa"
  by code_simp

lemma UUID_ALPHA: "UUID ALPHA = Some 0xaaaaaaaaaaaa4aaa8aaaaaaaaaaaaaaa"
  by code_simp

lemma UUID_beta: "UUID beta = Some 0xbbbbbbbbbbbb4bbb8bbbbbbbbbbbbbbb"
  by code_simp

lemma UUID_carol: "UUID carol = Some 0xcccccccccccc4ccc8ccccccccccccccc"
  by code_simp

lemma UUID_req1: "UUID req1 = Some 0xdddddddddddd4ddd8ddddddddddddddd"
  by code_simp

lemma UUID_default: "UUID ''default'' = None"
  by code_simp

lemma str_uuid_alpha: "str_uuid 0xaaaaaaaaaaaa4aaa8aaaaaaaaaaaaaaa = alpha"
  by (simp add: str_uuid_def hex_digits_numeral hex_char_def)

lemma str_uuid_beta: "str_uuid 0xbbbbbbbbbbbb4bbb8bbbbbbbbbbbbbbb = beta"
  by (simp add: str_uuid_def hex_digits_numeral hex_char_def)

lemma str_uuid_carol: "str_uuid 0xcccccccccccc4ccc8ccccccccccccccc = carol"
  by (simp add: str_uuid_def hex_digits_numeral hex_char_def)

lemma str_uuid_req1: "str_uuid 0xdddddddddddd4ddd8ddddddddddddddd = req1"
  by (simp add: str_uuid_def hex_digits_numeral hex_char_def)

lemma str_uuid_anon:
  "str_uuid 0xeeeeeeeeeeee4eee8eeeeeeeeeeeeeee = ''eeeeeeee-eeee-4eee-8eee-eeeeeeeeeeee''"
  by (simp add: str_uuid_def hex_digits_numeral hex_char_def)

lemmas uuid_evals = UUID_alpha UUID_ALPHA UUID_beta UUID_carol UUID_req1 UUID_default
  str_uuid_alpha str_uuid_beta str_uuid_carol str_uuid_req1 str_uuid_anon

lemma log_example:
  "UUID tenant = Some t \<Longrightarrow>
   DatabaseAuditLogger_log s (example_env i) (example_entry carol tenant ts)
   = Inr (str_uuid i,
          s\<lparr>audit_logs := audit_logs s @ [example_row i t ts],
            emitted := emitted s @ [\<lparr>levelname = INFO, msg = ''Audit logged''\<rparr>]\<rparr>)"
  by (simp add: DatabaseAuditLogger_log_def actor_uuid_def session_uuid_def truthy_def
      example_env_def example_entry_def example_row_def uuid_evals)

lemma example_db_rows:
  "audit_logs example_db =
     [example_row 1 0xaaaaaaaaaaaa4aaa8aaaaaaaaaaaaaaa 0,
      example_row 2 0xaaaaaaaaaaaa4aaa8aaaaaaaaaaaaaaa 60,
      example_row 3 0xbbbbbbbbbbbb4bbb8bbbbbbbbbbbbbbb 100,
      example_row 4 0xaaaaaaaaaaaa4aaa8aaaaaaaaaaaaaaa 120]"
  by (simp add: example_db_def api_run_def empty_db_def log_example uuid_evals)

subsection \<open>Reading the ambient context\<close>

text \<open>
  C7. Outside a request scope the context variable holds its default \<^verbatim>\<open>None\<close>:
  \<^verbatim>\<open>get_request_context\<close> then raises (\<^verbatim>\<open>RuntimeError\<close>, the no-context
  condition) and returns no context at all, while \<^verbatim>\<open>get_optional_request_context\<close>
  returns \<^verbatim>\<open>None\<close>. Once a context has been installed, both return exactly it.
\<close>

theorem current_context:
  "get_request_context None = Inl RuntimeError
   \<and> get_optional_request_context None = None
   \<and> get_request_context (set_request_context ctx var) = Inr ctx
   \<and> get_optional_request_context (set_request_context ctx var) = Some ctx"
  by (simp add: get_request_context_def get_optional_request_context_def
      set_request_context_def)

subsection \<open>Establishing the context\<close>

text \<open>
  C8, as amended. The middleware always installs a context. Its \<^verbatim>\<open>request_id\<close> is the
  header \<^verbatim>\<open>X-Request-ID\<close> when present and the text of a fresh UUID otherwise (and the
  response carries the same value); its \<^verbatim>\<open>tenant_id\<close> is the header
  \<^verbatim>\<open>X-Tenant-ID\<close> when present and the sentinel \<^verbatim>\<open>default\<close> otherwise; its
  \<^verbatim>\<open>client_ip\<close> is the first comma-separated entry of \<^verbatim>\<open>X-Forwarded-For\<close>,
  stripped of surrounding whitespace, when that header is present and not empty, and the
  peer address otherwise: an empty forwarded-for header counts as absent.
\<close>

theorem dispatch_context:
  "\<exists>ctx. fst (dispatch request u var) = Some ctx
     \<and> snd (dispatch request u var) = ctx_request_id ctx
     \<and> ctx_request_id ctx
         = (case headers request ''X-Request-ID'' of None \<Rightarrow> str_uuid u | Some v \<Rightarrow> v)
     \<and> ctx_tenant_id ctx
         = (case headers request ''X-Tenant-ID'' of None \<Rightarrow> ''default'' | Some v \<Rightarrow> v)
     \<and> ctx_client_ip ctx
         = (case headers request ''X-Forwarded-For'' of
              None \<Rightarrow> client request
            | Some v \<Rightarrow> if v = [] then client request
                        else Some (py_strip (takeWhile (\<lambda>c. c \<noteq> CHR '','') v)))"
  by (auto simp: dispatch_def set_request_context_def headers_get_def truthy_def
      split_comma_first_def Let_def split: option.splits)

text \<open>
  A request through two proxies, carrying a tenant and no request id, from peer
  \<^verbatim>\<open>10.0.0.1\<close>.
\<close>

theorem dispatch_context_witness:
  "fst (dispatch \<lparr>headers = [''X-Tenant-ID'' \<mapsto> alpha,
                              ''X-Forwarded-For'' \<mapsto> '' 192.0.2.7 , 10.0.0.9''],
                   client = Some ''10.0.0.1''\<rparr>
          0xdddddddddddd4ddd8ddddddddddddddd None)
   = Some \<lparr>ctx_request_id = req1, ctx_tenant_id = alpha, ctx_user_id = None,
           ctx_user_email = None, ctx_user_roles = [], ctx_session_id = None,
           ctx_client_ip = Some ''192.0.2.7'', ctx_user_agent = None\<rparr>"
  using dispatch_context
    [of "\<lparr>headers = [''X-Tenant-ID'' \<mapsto> alpha,
                       ''X-Forwarded-For'' \<mapsto> '' 192.0.2.7 , 10.0.0.9''],
           client = Some ''10.0.0.1''\<rparr>"
        "0xdddddddddddd4ddd8ddddddddddddddd" None]
  by (simp add: dispatch_def set_request_context_def headers_get_def truthy_def
      split_comma_first_def py_strip_def py_isspace_def Let_def str_uuid_req1)

text \<open>
  The claim as stated fails for a forwarded-for header that is present and empty: its
  first entry is the empty string, yet the context carries the peer address.
\<close>

theorem dispatch_forwarded_counterexample:
  "headers \<lparr>headers = [''X-Forwarded-For'' \<mapsto> ''''], client = Some ''10.0.0.1''\<rparr>
     ''X-Forwarded-For'' = Some ''''
   \<and> map_option ctx_client_ip
        (fst (dispatch \<lparr>headers = [''X-Forwarded-For'' \<mapsto> ''''], client = Some ''10.0.0.1''\<rparr>
                7 None))
       = Some (Some ''10.0.0.1'')
   \<and> Some ''10.0.0.1'' \<noteq> Some (py_strip (split_comma_first ''''))"
  by (simp add: dispatch_def set_request_context_def headers_get_def truthy_def
      split_comma_first_def py_strip_def Let_def)

subsection \<open>Building an entry from the context\<close>

text \<open>
  C3. Without an ambient context and without a \<^verbatim>\<open>tenant_id\<close> among the keyword
  arguments, \<^verbatim>\<open>from_context\<close> fails: with a validation error for the missing field,
  or with a type error when a keyword repeats one of the three positional parameters. And
  whenever it does return an entry without a context, the tenant of that entry is the
  one given by keyword: no tenant is guessed or defaulted.
\<close>

theorem from_context_without_context:
  "(kw_tenant_id kw = None \<longrightarrow>
      from_context None f act rtype rid kw
        = Inl (if given_without_context kw then TypeError else ValidationError))
   \<and> (\<forall>e. from_context None f act rtype rid kw = Inr e \<longrightarrow>
          kw_tenant_id kw = Some (tenant_id e))"
  by (auto simp: from_context_def get_optional_request_context_def AuditEntry_init_def
      split: option.splits if_splits)

theorem from_context_without_context_witness:
  "kw_tenant_id (no_kwargs\<lparr>kw_actor_id := Some carol\<rparr> :: string kwargs) = None
   \<and> from_context None \<lparr>fresh_request_id = 7, now = 0\<rparr> READ ''document'' ''doc-1''
         (no_kwargs\<lparr>kw_actor_id := Some carol\<rparr> :: string kwargs) = Inl ValidationError
   \<and> map_sum id tenant_id
         (from_context None \<lparr>fresh_request_id = 7, now = 0\<rparr> READ ''document'' ''doc-1''
            (no_kwargs\<lparr>kw_actor_id := Some carol, kw_tenant_id := Some alpha\<rparr>
              :: string kwargs)) = Inr alpha"
  using from_context_without_context
    [of "no_kwargs\<lparr>kw_actor_id := Some carol\<rparr> :: string kwargs"
        "\<lparr>fresh_request_id = 7, now = 0\<rparr>" READ "''document''" "''doc-1''"]
    from_context_without_context
    [of "no_kwargs\<lparr>kw_actor_id := Some carol, kw_tenant_id := Some alpha\<rparr> :: string kwargs"
        "\<lparr>fresh_request_id = 7, now = 0\<rparr>" READ "''document''" "''doc-1''"]
  by (simp add: no_kwargs_def given_without_context_def from_context_def
      get_optional_request_context_def AuditEntry_init_def)

text \<open>
  C5, as amended. With an ambient context, \<^verbatim>\<open>from_context\<close> returns an entry exactly
  when no keyword argument names a field that the call already fills from the context or
  from its positional parameters (\<^verbatim>\<open>actor_id\<close>, \<^verbatim>\<open>actor_ip\<close>, \<^verbatim>\<open>action\<close>,
  \<^verbatim>\<open>resource_type\<close>, \<^verbatim>\<open>resource_id\<close>, \<^verbatim>\<open>tenant_id\<close>, \<^verbatim>\<open>request_id\<close>,
  \<^verbatim>\<open>session_id\<close>); such a keyword makes the call fail with a type error. The entry
  returned has the context's user id as \<^verbatim>\<open>actor_id\<close>, or \<^verbatim>\<open>anonymous\<close> when the
  user id is absent or empty; its \<^verbatim>\<open>actor_ip\<close>, \<^verbatim>\<open>tenant_id\<close>, \<^verbatim>\<open>request_id\<close>
  and \<^verbatim>\<open>session_id\<close> are the context's; every other field is the keyword argument
  when given and the declared default otherwise.
\<close>

theorem from_context_with_context:
  "(given_with_context kw \<longrightarrow> from_context (Some ctx) f act rtype rid kw = Inl TypeError)
   \<and> (\<not> given_with_context kw \<longrightarrow>
        (\<exists>e. from_context (Some ctx) f act rtype rid kw = Inr e
           \<and> actor_id e = (case ctx_user_id ctx of
                             None \<Rightarrow> ''anonymous''
                           | Some u \<Rightarrow> if u = [] then ''anonymous'' else u)
           \<and> actor_ip e = ctx_client_ip ctx
           \<and> tenant_id e = ctx_tenant_id ctx
           \<and> request_id e = ctx_request_id ctx
           \<and> session_id e = ctx_session_id ctx
           \<and> action e = act \<and> resource_type e = rtype \<and> resource_id e = rid
           \<and> actor_type e = (case kw_actor_type kw of None \<Rightarrow> ''user'' | Some v \<Rightarrow> v)
           \<and> action_detail e = (case kw_action_detail kw of None \<Rightarrow> None | Some v \<Rightarrow> v)
           \<and> timestamp e = (case kw_timestamp kw of None \<Rightarrow> now f | Some v \<Rightarrow> v)
           \<and> old_values e = (case kw_old_values kw of None \<Rightarrow> None | Some v \<Rightarrow> v)
           \<and> new_values e = (case kw_new_values kw of None \<Rightarrow> None | Some v \<Rightarrow> v)
           \<and> success e = (case kw_success kw of None \<Rightarrow> True | Some v \<Rightarrow> v)
           \<and> error_message e = (case kw_error_message kw of None \<Rightarrow> None | Some v \<Rightarrow> v)
           \<and> data_classification e
               = (case kw_data_classification kw of None \<Rightarrow> INTERNAL | Some v \<Rightarrow> v)))"
  by (auto simp: from_context_def get_optional_request_context_def AuditEntry_init_def
      given_with_context_def or_anonymous_def truthy_def dflt_def split: option.splits)

theorem from_context_with_context_witness:
  "\<not> given_with_context (no_kwargs\<lparr>kw_success := Some False\<rparr> :: string kwargs)
   \<and> from_context
         (Some \<lparr>ctx_request_id = req1, ctx_tenant_id = alpha, ctx_user_id = None,
                ctx_user_email = None, ctx_user_roles = [], ctx_session_id = None,
                ctx_client_ip = Some ''10.0.0.1'', ctx_user_agent = None\<rparr>)
         \<lparr>fresh_request_id = 7, now = 5\<rparr> UPDATE ''document'' ''doc-1''
         (no_kwargs\<lparr>kw_success := Some False\<rparr> :: string kwargs)
       = Inr \<lparr>actor_id = ''anonymous'', actor_type = ''user'', actor_ip = Some ''10.0.0.1'',
              action = UPDATE, action_detail = None, resource_type = ''document'',
              resource_id = ''doc-1'', tenant_id = alpha, request_id = req1,
              session_id = None, timestamp = 5, old_values = None, new_values = None,
              success = False, error_message = None, data_classification = INTERNAL\<rparr>"
  using from_context_with_context
    [of "no_kwargs\<lparr>kw_success := Some False\<rparr> :: string kwargs"
        "\<lparr>ctx_request_id = req1, ctx_tenant_id = alpha, ctx_user_id = None,
          ctx_user_email = None, ctx_user_roles = [], ctx_session_id = None,
          ctx_client_ip = Some ''10.0.0.1'', ctx_user_agent = None\<rparr>"
        "\<lparr>fresh_request_id = 7, now = 5\<rparr>" UPDATE "''document''" "''doc-1''"]
  by (auto simp: no_kwargs_def given_with_context_def)

text \<open>
  The claim as stated fails when the extra fields name a field taken from the context:
  a \<^verbatim>\<open>tenant_id\<close> given by keyword is not laid over the context's, the call raises.
\<close>

theorem from_context_overlay_counterexample:
  "from_context
     (Some \<lparr>ctx_request_id = req1, ctx_tenant_id = alpha, ctx_user_id = Some carol,
            ctx_user_email = None, ctx_user_roles = [], ctx_session_id = None,
            ctx_client_ip = None, ctx_user_agent = None\<rparr>)
     \<lparr>fresh_request_id = 7, now = 5\<rparr> UPDATE ''document'' ''doc-1''
     (no_kwargs\<lparr>kw_tenant_id := Some beta\<rparr> :: string kwargs)
   = Inl TypeError"
  by (simp add: from_context_def get_optional_request_context_def given_with_context_def
      no_kwargs_def)

subsection \<open>The fallback logger\<close>

text \<open>
  C6. Whatever the tenant and the filters, \<^verbatim>\<open>LoggingAuditLogger.query\<close> returns the
  empty list and emits one record of level \<^verbatim>\<open>WARNING\<close> through the logger, so the
  logger's output after the call differs from the output before it. A query on the
  persistent logger emits nothing: the warning tells the two empty results apart.
\<close>

theorem fallback_query:
  fixes s :: "'j db_state"
  shows "LoggingAuditLogger_query out tenant kw
           = ([] :: 'j AuditEntry list,
              out @ [\<lparr>levelname = WARNING,
                       msg = ''Audit query not supported for LoggingAuditLogger''\<rparr>])
         \<and> snd (LoggingAuditLogger_query out tenant kw :: 'j AuditEntry list \<times> LogRecord list)
             \<noteq> out
         \<and> emitted (api_step s (Query t a rt ri ac t0 t1 lim off)) = emitted s"
  by (simp add: LoggingAuditLogger_query_def)

theorem fallback_query_witness:
  "LoggingAuditLogger_query [\<lparr>levelname = INFO, msg = ''AUDIT''\<rparr>] alpha
     \<lparr>q_actor_id = Some carol, q_resource_type = None, q_resource_id = None,
      q_action = Some UPDATE, q_start_time = None, q_end_time = None,
      q_limit = Some 10, q_offset = None\<rparr>
   = ([] :: string AuditEntry list,
      [\<lparr>levelname = INFO, msg = ''AUDIT''\<rparr>,
       \<lparr>levelname = WARNING, msg = ''Audit query not supported for LoggingAuditLogger''\<rparr>])
   \<and> emitted (api_step example_db (Query alpha None None None None None None 100 0))
       = emitted example_db"
  using fallback_query
    [of "[\<lparr>levelname = INFO, msg = ''AUDIT''\<rparr>]" alpha
        "\<lparr>q_actor_id = Some carol, q_resource_type = None, q_resource_id = None,
          q_action = Some UPDATE, q_start_time = None, q_end_time = None,
          q_limit = Some 10, q_offset = None\<rparr>"
        example_db alpha None None None None None None 100 0]
  by simp

subsection \<open>Entries that cannot be stored\<close>

lemma log_ValueError:
  "UUID (tenant_id entry) = None \<or> UUID (request_id entry) = None
   \<Longrightarrow> DatabaseAuditLogger_log s env entry = Inl ValueError"
  by (auto simp: DatabaseAuditLogger_log_def actor_uuid_def split: sum.splits option.splits)

text \<open>
  C10. When the \<^verbatim>\<open>tenant_id\<close> or the \<^verbatim>\<open>request_id\<close> of an entry is not accepted
  by \<^verbatim>\<open>UUID\<close>, \<^verbatim>\<open>DatabaseAuditLogger.log\<close> raises \<^verbatim>\<open>ValueError\<close> while it
  builds the row, and the table is as before. The sentinel \<^verbatim>\<open>default\<close> is such a
  string, and it is the tenant the middleware installs when the request has no
  \<^verbatim>\<open>X-Tenant-ID\<close> header.
\<close>

theorem log_rejects_non_uuid:
  "(UUID (tenant_id entry) = None \<or> UUID (request_id entry) = None \<longrightarrow>
      DatabaseAuditLogger_log s env entry = Inl ValueError
      \<and> api_step s (Log env entry) = s)
   \<and> UUID ''default'' = None
   \<and> (headers request ''X-Tenant-ID'' = None \<longrightarrow>
        map_option ctx_tenant_id (fst (dispatch request u var)) = Some ''default'')"
  by (auto simp: log_ValueError UUID_default dispatch_def set_request_context_def
      headers_get_def Let_def)

theorem log_rejects_non_uuid_witness:
  "UUID (tenant_id (example_entry carol ''default'' 0)) = None
   \<and> DatabaseAuditLogger_log example_db (example_env 9) (example_entry carol ''default'' 0)
       = Inl ValueError
   \<and> api_step example_db (Log (example_env 9) (example_entry carol ''default'' 0))
       = example_db
   \<and> headers \<lparr>headers = Map.empty, client = None\<rparr> ''X-Tenant-ID'' = None
   \<and> map_option ctx_tenant_id
        (fst (dispatch \<lparr>headers = Map.empty, client = None\<rparr> 7 None)) = Some ''default''"
  using log_rejects_non_uuid
    [of "example_entry carol ''default'' 0" example_db "example_env 9"
        "\<lparr>headers = Map.empty, client = None\<rparr>" 7 None]
  by (simp add: example_entry_def UUID_default)

subsection \<open>The table only grows\<close>

lemma api_step_prefix: "prefix (audit_logs s) (audit_logs (api_step s c))"
  by (cases c)
     (auto simp: DatabaseAuditLogger_log_def Let_def split: sum.splits option.splits if_splits)

lemma api_run_prefix: "prefix (audit_logs s) (audit_logs (api_run s calls))"
  unfolding api_run_def
proof (induction calls arbitrary: s)
  case Nil
  show ?case by simp
next
  case (Cons c calls)
  have "prefix (audit_logs s) (audit_logs (api_step s c))"
    by (rule api_step_prefix)
  also have "prefix (audit_logs (api_step s c))
               (audit_logs (foldl api_step (api_step s c) calls))"
    by (rule Cons.IH)
  finally show ?case by simp
qed

lemma log_appends:
  "DatabaseAuditLogger_log s env entry = Inr (i, s1)
   \<Longrightarrow> \<exists>r. audit_logs s1 = audit_logs s @ [r] \<and> str_uuid (log_id r) = i
          \<and> log_old_values r = old_values entry \<and> log_new_values r = new_values entry
          \<and> log_success r = success entry"
  by (auto simp: DatabaseAuditLogger_log_def Let_def split: sum.splits option.splits if_splits)

text \<open>
  C4. A successful \<^verbatim>\<open>log\<close> appends one row, with the entry's \<^verbatim>\<open>old_values\<close>,
  \<^verbatim>\<open>new_values\<close> and \<^verbatim>\<open>success\<close>. After any sequence of further \<^verbatim>\<open>log\<close> and
  \<^verbatim>\<open>query\<close> calls the table still begins with the rows it had, and the row is found
  unchanged at its position.
\<close>

theorem append_only:
  assumes "DatabaseAuditLogger_log s env entry = Inr (i, s1)"
  shows "\<exists>r. audit_logs s1 = audit_logs s @ [r] \<and> str_uuid (log_id r) = i
           \<and> log_old_values r = old_values entry \<and> log_new_values r = new_values entry
           \<and> log_success r = success entry
           \<and> (\<forall>calls. prefix (audit_logs s1) (audit_logs (api_run s1 calls))
                  \<and> audit_logs (api_run s1 calls) ! length (audit_logs s) = r)"
proof -
  from log_appends [OF assms] obtain r where
    r: "audit_logs s1 = audit_logs s @ [r]" "str_uuid (log_id r) = i"
       "log_old_values r = old_values entry" "log_new_values r = new_values entry"
       "log_success r = success entry"
    by blast
  have "audit_logs (api_run s1 calls) ! length (audit_logs s) = r" for calls
  proof -
    from api_run_prefix [of s1 calls] obtain zs where
      "audit_logs (api_run s1 calls) = audit_logs s1 @ zs"
      by (auto simp: prefix_def)
    then show ?thesis using r(1) by (simp add: nth_append)
  qed
  with r api_run_prefix show ?thesis by blast
qed

text \<open>
  The first example entry is logged into the empty table; another tenant then logs and
  the first tenant queries; the first row still reports the update as it was submitted.
\<close>

theorem append_only_witness:
  "DatabaseAuditLogger_log empty_db (example_env 1) (example_entry carol alpha 0)
     = Inr (str_uuid 1,
            empty_db\<lparr>audit_logs := audit_logs empty_db
                         @ [example_row 1 0xaaaaaaaaaaaa4aaa8aaaaaaaaaaaaaaa 0],
                     emitted := emitted empty_db
                         @ [\<lparr>levelname = INFO, msg = ''Audit logged''\<rparr>]\<rparr>)
   \<and> log_new_values
        (audit_logs
           (api_run
              (empty_db\<lparr>audit_logs := audit_logs empty_db
                           @ [example_row 1 0xaaaaaaaaaaaa4aaa8aaaaaaaaaaaaaaa 0],
                        emitted := emitted empty_db
                           @ [\<lparr>levelname = INFO, msg = ''Audit logged''\<rparr>]\<rparr>)
              [Log (example_env 2) (example_entry carol beta 5),
               Query alpha None None None None None None 100 0]) ! 0)
       = Some ''title=b''"
proof -
  have h: "DatabaseAuditLogger_log empty_db (example_env 1) (example_entry carol alpha 0)
     = Inr (str_uuid 1,
            empty_db\<lparr>audit_logs := audit_logs empty_db
                         @ [example_row 1 0xaaaaaaaaaaaa4aaa8aaaaaaaaaaaaaaa 0],
                     emitted := emitted empty_db
                         @ [\<lparr>levelname = INFO, msg = ''Audit logged''\<rparr>]\<rparr>)"
    by (rule log_example [OF UUID_alpha])
  from append_only [OF h] show ?thesis
    using h by (auto simp: empty_db_def example_entry_def)
qed

subsection \<open>The text of a UUID determines it\<close>

lemma length_hex_digits: "length (hex_digits k n) = k"
  by (induction k arbitrary: n) simp_all

lemma hex_char_inj:
  assumes "a < 16" "b < 16" "hex_char a = hex_char b"
  shows "a = b"
proof -
  have "distinct ''0123456789abcdef''"
    by simp
  moreover have "a < length ''0123456789abcdef''" "b < length ''0123456789abcdef''"
    using assms by simp_all
  ultimately show ?thesis
    using assms(3) unfolding hex_char_def by (simp only: nth_eq_iff_index_eq)
qed

lemma hex_digits_inj:
  "hex_digits k m = hex_digits k n \<Longrightarrow> m mod 16 ^ k = n mod 16 ^ k"
proof (induction k arbitrary: m n)
  case 0
  show ?case by simp
next
  case (Suc k)
  from Suc.prems have
    tl: "hex_digits k (m div 16) = hex_digits k (n div 16)"
    and hd: "hex_char (m mod 16) = hex_char (n mod 16)"
    by simp_all
  from hd have d: "m mod 16 = n mod 16"
    by (intro hex_char_inj) simp_all
  from Suc.IH [OF tl] have "m div 16 mod 16 ^ k = n div 16 mod 16 ^ k" .
  then show ?case
    using d by (simp add: mod_mult2_eq)
qed

lemma take_app_len: "length a = n \<Longrightarrow> take n (a @ x) = a"
  by simp

lemma drop_app_sep: "length a = n \<Longrightarrow> drop (Suc n) (a @ c # x) = x"
  by simp

lemma hex_of_str_uuid:
  "take 8 (str_uuid u) @ take 4 (drop 9 (str_uuid u)) @ take 4 (drop 14 (str_uuid u))
     @ take 4 (drop 19 (str_uuid u)) @ drop 24 (str_uuid u)
   = hex_digits 32 (unat u)"
proof -
  define h where "h = hex_digits 32 (unat u)"
  define a where "a = take 8 h"
  define b where "b = take 4 (drop 8 h)"
  define c where "c = take 4 (drop 12 h)"
  define d where "d = take 4 (drop 16 h)"
  define e where "e = drop 20 h"
  define w where "w = str_uuid u"
  have l: "length h = 32"
    by (simp add: h_def length_hex_digits)
  have la: "length a = 8" and lb: "length b = 4" and lc: "length c = 4"
    and ld: "length d = 4"
    by (simp_all add: a_def b_def c_def d_def l)
  have w: "w = a @ CHR ''-'' # b @ CHR ''-'' # c @ CHR ''-'' # d @ CHR ''-'' # e"
    by (simp add: w_def str_uuid_def Let_def a_def b_def c_def d_def e_def h_def)
  have t8: "take 8 w = a"
    unfolding w by (rule take_app_len [OF la])
  have "drop (Suc 8) w = b @ CHR ''-'' # c @ CHR ''-'' # d @ CHR ''-'' # e"
    unfolding w by (rule drop_app_sep [OF la])
  then have d9: "drop 9 w = b @ CHR ''-'' # c @ CHR ''-'' # d @ CHR ''-'' # e"
    by simp
  have "drop (Suc 4) (drop 9 w) = c @ CHR ''-'' # d @ CHR ''-'' # e"
    unfolding d9 by (rule drop_app_sep [OF lb])
  then have d14: "drop 14 w = c @ CHR ''-'' # d @ CHR ''-'' # e"
    by simp
  have "drop (Suc 4) (drop 14 w) = d @ CHR ''-'' # e"
    unfolding d14 by (rule drop_app_sep [OF lc])
  then have d19: "drop 19 w = d @ CHR ''-'' # e"
    by simp
  have "drop (Suc 4) (drop 19 w) = e"
    unfolding d19 by (rule drop_app_sep [OF ld])
  then have d24: "drop 24 w = e"
    by simp
  have t9: "take 4 (drop 9 w) = b"
    unfolding d9 by (rule take_app_len [OF lb])
  have t14: "take 4 (drop 14 w) = c"
    unfolding d14 by (rule take_app_len [OF lc])
  have t19: "take 4 (drop 19 w) = d"
    unfolding d19 by (rule take_app_len [OF ld])
  have "drop 8 h = b @ drop 12 h"
    using append_take_drop_id [of 4 "drop 8 h"] by (simp add: b_def)
  moreover have "drop 12 h = c @ drop 16 h"
    using append_take_drop_id [of 4 "drop 12 h"] by (simp add: c_def)
  moreover have "drop 16 h = d @ e"
    using append_take_drop_id [of 4 "drop 16 h"] by (simp add: d_def e_def)
  moreover have "h = a @ drop 8 h"
    by (simp add: a_def)
  ultimately have "h = a @ b @ c @ d @ e"
    by simp
  then show ?thesis
    by (simp only: t8 t9 t14 t19 d24 w_def [symmetric] h_def [symmetric])
qed

lemma str_uuid_inj: "str_uuid u = str_uuid v \<Longrightarrow> u = v"
proof -
  assume e: "str_uuid u = str_uuid v"
  have "hex_digits 32 (unat u) = hex_digits 32 (unat v)"
    using hex_of_str_uuid [of u] hex_of_str_uuid [of v] by (simp only: e)
  then have "unat u mod 16 ^ 32 = unat v mod 16 ^ 32"
    by (rule hex_digits_inj)
  moreover have "unat u < 16 ^ 32" "unat v < 16 ^ 32"
    using unsigned_less [of u] unsigned_less [of v] by simp_all
  ultimately have "unat u = unat v"
    by simp
  then show "u = v"
    by (simp add: word_unat_eq_iff)
qed

subsection \<open>Reading rows back\<close>

lemma entries_of_logs_all2:
  "entries_of_logs rs = Inr es \<Longrightarrow> list_all2 (\<lambda>r e. entry_of_log r = Inr e) rs es"
proof (induction rs arbitrary: es)
  case Nil
  then show ?case by simp
next
  case (Cons r rs)
  then show ?case
    by (auto split: sum.splits)
qed

lemma entry_of_log_fields:
  "entry_of_log r = Inr e \<Longrightarrow>
     timestamp e = log_timestamp r \<and> tenant_id e = str_uuid (log_tenant_id r)"
  by (auto simp: entry_of_log_def split: sum.splits)

lemma entries_of_logs_timestamps:
  assumes "entries_of_logs rs = Inr es"
  shows "map timestamp es = map log_timestamp rs"
    and "map tenant_id es = map (\<lambda>r. str_uuid (log_tenant_id r)) rs"
proof -
  from entries_of_logs_all2 [OF assms]
  have a: "list_all2 (\<lambda>r e. entry_of_log r = Inr e) rs es" .
  then have "list_all2 (\<lambda>r e. timestamp e = log_timestamp r) rs es"
    by (rule list_all2_mono) (simp add: entry_of_log_fields)
  then show "map timestamp es = map log_timestamp rs"
    by (induction rule: list_all2_induct) auto
  from a have "list_all2 (\<lambda>r e. tenant_id e = str_uuid (log_tenant_id r)) rs es"
    by (rule list_all2_mono) (simp add: entry_of_log_fields)
  then show "map tenant_id es = map (\<lambda>r. str_uuid (log_tenant_id r)) rs"
    by (induction rule: list_all2_induct) auto
qed

subsection \<open>What a query returns\<close>

lemma where_actor_selected:
  "where_actor actor = Inr cl \<Longrightarrow>
   \<exists>a. (case supplied actor of None \<Rightarrow> a = None | Some x \<Rightarrow> a \<noteq> None \<and> UUID x = a)
       \<and> (\<forall>r. list_all (\<lambda>p. p r) cl
                = (case a of None \<Rightarrow> True | Some u \<Rightarrow> log_actor_id r = u))"
  by (auto simp: where_actor_def supplied_def truthy_def split: option.splits if_splits)

lemma where_str_selected:
  "list_all (\<lambda>p. p r) (where_str x p0)
     = (case supplied x of None \<Rightarrow> True | Some v \<Rightarrow> p0 v r)"
  by (auto simp: where_str_def supplied_def truthy_def split: option.splits)

lemma where_opt_selected:
  "list_all (\<lambda>p. p r) (where_opt x p0) = (case x of None \<Rightarrow> True | Some v \<Rightarrow> p0 v r)"
  by (auto simp: where_opt_def split: option.splits)

lemma execute_page:
  assumes "execute table wheres offset limit = Inr logs"
  shows "0 \<le> offset \<and> 0 \<le> limit
         \<and> logs = take (nat limit) (drop (nat offset)
                     (sort_key (\<lambda>r. - log_timestamp r)
                        (filter (\<lambda>r. list_all (\<lambda>p. p r) wheres) table)))"
  using assms by (auto simp: execute_def split: if_splits)

lemma sorted_desc_sort_key:
  "sorted_wrt (\<lambda>x y. log_timestamp y \<le> log_timestamp x)
     (sort_key (\<lambda>r. - log_timestamp r) xs)"
proof -
  have "sorted (map (\<lambda>r. - log_timestamp r) (sort_key (\<lambda>r. - log_timestamp r) xs))"
    by (rule sorted_sort_key)
  then show ?thesis
    by (simp add: sorted_map)
qed

text \<open>
  C1, as amended. A query that returns has a tenant id that parses to a UUID \<open>t\<close>
  (and an actor filter, when supplied, that parses to a UUID), and offset and limit
  that are not negative. Its result is the page \<^verbatim>\<open>[offset, offset + limit)\<close> of the
  selected rows in descending order of timestamp, read back as entries: the selected
  rows are those of tenant \<open>t\<close> that meet every supplied filter, where a string filter
  that is empty counts as not supplied. Every entry returned carries the text of \<open>t\<close>
  as its tenant, and no row of another tenant reads back as one of them; the entries
  are in descending order of timestamp, and there are at most \<open>limit\<close> of them.
\<close>

theorem query_tenant_scoped:
  fixes s :: "'j db_state"
  assumes "DatabaseAuditLogger_query s tenant actor rtype rid act t0 t1 limit offset = Inr res"
  shows "\<exists>t a rows.
           UUID tenant = Some t
         \<and> (case supplied actor of None \<Rightarrow> a = None | Some x \<Rightarrow> a \<noteq> None \<and> UUID x = a)
         \<and> mset rows
             = mset (filter (selected t a (supplied rtype) (supplied rid) act t0 t1)
                       (audit_logs s))
         \<and> sorted_wrt (\<lambda>x y. log_timestamp y \<le> log_timestamp x) rows
         \<and> 0 \<le> offset \<and> 0 \<le> limit
         \<and> entries_of_logs (take (nat limit) (drop (nat offset) rows)) = Inr res
         \<and> (\<forall>e \<in> set res. tenant_id e = str_uuid t)
         \<and> (\<forall>r e. entry_of_log r = Inr e \<and> e \<in> set res \<longrightarrow> log_tenant_id r = t)
         \<and> sorted_wrt (\<lambda>x y. timestamp y \<le> timestamp x) res
         \<and> length res \<le> nat limit"
proof -
  from assms obtain t where t: "UUID tenant = Some t"
    by (auto simp: DatabaseAuditLogger_query_def split: option.splits)
  from assms t obtain cl :: "('j AuditLog \<Rightarrow> bool) list" where
    cl: "where_actor actor = Inr cl"
    by (auto simp: DatabaseAuditLogger_query_def split: sum.splits)
  define stmt where "stmt = [\<lambda>r. log_tenant_id r = t] @ cl
                     @ where_str rtype (\<lambda>v r. log_resource_type r = v)
                     @ where_str rid (\<lambda>v r. log_resource_id r = v)
                     @ where_opt act (\<lambda>a r. log_action r = AuditAction_value a)
                     @ where_opt t0 (\<lambda>t0 r. log_timestamp r \<ge> t0)
                     @ where_opt t1 (\<lambda>t1 r. log_timestamp r \<le> t1)"
  from assms t cl obtain logs where
    logs: "execute (audit_logs s) stmt offset limit = Inr logs"
      and res: "entries_of_logs logs = Inr res"
    by (auto simp: DatabaseAuditLogger_query_def stmt_def Let_def split: sum.splits)
  from where_actor_selected [OF cl] obtain a where
    a: "case supplied actor of None \<Rightarrow> a = None | Some x \<Rightarrow> a \<noteq> None \<and> UUID x = a"
      and acl: "\<And>r. list_all (\<lambda>p. p r) cl
                  = (case a of None \<Rightarrow> True | Some u \<Rightarrow> log_actor_id r = u)"
    by blast
  have sel: "list_all (\<lambda>p. p r) stmt
               = selected t a (supplied rtype) (supplied rid) act t0 t1 r" for r
    by (simp add: stmt_def selected_def acl where_str_selected where_opt_selected)
  define rows where "rows = sort_key (\<lambda>r. - log_timestamp r)
                       (filter (selected t a (supplied rtype) (supplied rid) act t0 t1)
                          (audit_logs s))"
  from execute_page [OF logs] have
    nonneg: "0 \<le> offset" "0 \<le> limit"
      and page: "logs = take (nat limit) (drop (nat offset) rows)"
    by (simp_all add: rows_def sel)
  have m: "mset rows
             = mset (filter (selected t a (supplied rtype) (supplied rid) act t0 t1)
                       (audit_logs s))"
    by (simp add: rows_def)
  have srt: "sorted_wrt (\<lambda>x y. log_timestamp y \<le> log_timestamp x) rows"
    unfolding rows_def by (rule sorted_desc_sort_key)
  have tenant_rows: "\<forall>r \<in> set logs. log_tenant_id r = t"
  proof
    fix r assume "r \<in> set logs"
    then have "r \<in> set rows"
      unfolding page by (meson in_set_dropD in_set_takeD)
    then show "log_tenant_id r = t"
      by (simp add: rows_def selected_def)
  qed
  have "map tenant_id res = map (\<lambda>r. str_uuid (log_tenant_id r)) logs"
    by (rule entries_of_logs_timestamps(2) [OF res])
  also have "\<dots> = map (\<lambda>r. str_uuid t) logs"
    using tenant_rows by simp
  finally have mt: "map tenant_id res = map (\<lambda>r. str_uuid t) logs" .
  have ten: "\<forall>e \<in> set res. tenant_id e = str_uuid t"
  proof
    fix e assume "e \<in> set res"
    then have "tenant_id e \<in> set (map tenant_id res)"
      by simp
    then have "tenant_id e \<in> set (map (\<lambda>r. str_uuid t) logs)"
      by (simp only: mt)
    then show "tenant_id e = str_uuid t"
      by auto
  qed
  have "sorted_wrt (\<lambda>x y. log_timestamp y \<le> log_timestamp x) logs"
    unfolding page using srt by (simp add: sorted_wrt_take sorted_wrt_drop)
  then have "sorted_wrt (\<lambda>x y. y \<le> x) (map log_timestamp logs)"
    by (simp add: sorted_wrt_map)
  then have "sorted_wrt (\<lambda>x y. y \<le> x) (map timestamp res)"
    by (simp add: entries_of_logs_timestamps(1) [OF res])
  then have srt_res: "sorted_wrt (\<lambda>x y. timestamp y \<le> timestamp x) res"
    by (simp add: sorted_wrt_map)
  have "length res = length logs"
    using entries_of_logs_all2 [OF res] by (simp add: list_all2_lengthD)
  then have len: "length res \<le> nat limit"
    by (simp add: page)
  have iso: "log_tenant_id r = t" if "entry_of_log r = Inr e" "e \<in> set res" for r e
  proof -
    from that(1) have "tenant_id e = str_uuid (log_tenant_id r)"
      by (simp add: entry_of_log_fields)
    moreover from ten that(2) have "tenant_id e = str_uuid t"
      by blast
    ultimately show ?thesis
      by (auto dest: str_uuid_inj)
  qed
  from t a m srt nonneg res page ten iso srt_res len show ?thesis
    by blast
qed

lemma entry_of_example_row:
  "entry_of_log (example_row i t ts) = Inr (example_entry carol (str_uuid t) ts)"
  by (simp add: entry_of_log_def example_row_def example_entry_def AuditAction_of_value_def
      DataClassification_of_value_def str_uuid_carol str_uuid_req1)

lemma example_row_fields:
  "log_tenant_id (example_row i t ts) = t"
  "log_timestamp (example_row i t ts) = ts"
  "log_resource_id (example_row i t ts) = ''doc-1''"
  "log_resource_type (example_row i t ts) = ''document''"
  by (simp_all add: example_row_def)

lemmas query_evals = DatabaseAuditLogger_query_def where_actor_def where_str_def
  where_opt_def truthy_def execute_def example_db_rows example_row_fields
  entry_of_example_row uuid_evals

text \<open>
  The example table holds entries of tenant \<open>alpha\<close> at times 0, 60 and 120; a query
  of that tenant for the window from 30 to 120 returns the last two, latest first.
\<close>

theorem query_tenant_scoped_witness:
  "DatabaseAuditLogger_query example_db alpha None None None None (Some 30) (Some 120) 100 0
   = Inr [example_entry carol alpha 120, example_entry carol alpha 60]"
proof -
  have q: "DatabaseAuditLogger_query example_db alpha None None None None (Some 30)
             (Some 120) 100 0
           = Inr [example_entry carol alpha 120, example_entry carol alpha 60]"
    by (simp add: query_evals)
  from query_tenant_scoped [OF q] show ?thesis
    using q by simp
qed

text \<open>
  The claim as stated fails twice on the example table: a query whose tenant id is the
  upper-case spelling returns the entries logged with the lower-case one, a different
  string; and the empty \<^verbatim>\<open>resource_id\<close> filter it supplies is not applied, the
  entries returned having the resource id \<^verbatim>\<open>doc-1\<close>.
\<close>

theorem query_filter_counterexample:
  "example_db
     = api_run empty_db
         [Log (example_env 1) (example_entry carol alpha 0),
          Log (example_env 2) (example_entry carol alpha 60),
          Log (example_env 3) (example_entry carol beta 100),
          Log (example_env 4) (example_entry carol alpha 120)]
   \<and> DatabaseAuditLogger_query example_db ALPHA None None (Some []) None None None 100 0
       = Inr [example_entry carol alpha 120, example_entry carol alpha 60,
              example_entry carol alpha 0]
   \<and> tenant_id (example_entry carol alpha 0) \<noteq> ALPHA
   \<and> resource_id (example_entry carol alpha 0) \<noteq> []"
proof -
  have "DatabaseAuditLogger_query example_db ALPHA None None (Some []) None None None 100 0
       = Inr [example_entry carol alpha 120, example_entry carol alpha 60,
              example_entry carol alpha 0]"
    by (simp add: query_evals)
  moreover have "tenant_id (example_entry carol alpha 0) \<noteq> ALPHA"
    "resource_id (example_entry carol alpha 0) \<noteq> []"
    by (simp_all add: example_entry_def)
  ultimately show ?thesis
    using example_db_def by blast
qed

subsection \<open>Writing an entry and reading it back\<close>

lemma AuditAction_of_value_value: "AuditAction_of_value (AuditAction_value a) = Inr a"
  by (cases a) (simp_all add: AuditAction_of_value_def)

lemma DataClassification_of_value_value:
  "DataClassification_of_value (DataClassification_value c) = Inr c"
  by (cases c) (simp_all add: DataClassification_of_value_def)

lemma entries_of_logs_total:
  "\<forall>r \<in> set rs. \<not> isl (entry_of_log r) \<Longrightarrow> \<exists>es. entries_of_logs rs = Inr es"
proof (induction rs)
  case Nil
  show ?case by simp
next
  case (Cons r rs)
  then obtain es where "entries_of_logs rs = Inr es"
    by auto
  moreover from Cons.prems obtain e where "entry_of_log r = Inr e"
    by (cases "entry_of_log r") auto
  ultimately show ?case
    by simp
qed

lemma entries_of_logs_member:
  assumes "entries_of_logs rs = Inr es" "r \<in> set rs" "entry_of_log r = Inr e"
  shows "e \<in> set es"
proof -
  from entries_of_logs_all2 [OF assms(1)]
  have a: "list_all2 (\<lambda>r e. entry_of_log r = Inr e) rs es" .
  from assms(2) obtain k where k: "k < length rs" "rs ! k = r"
    by (auto simp: in_set_conv_nth)
  from a k have "entry_of_log r = Inr (es ! k)" "k < length es"
    by (auto simp: list_all2_conv_all_nth)
  with assms(3) show ?thesis
    by auto
qed

text \<open>The row that \<^verbatim>\<open>log\<close> stores, and the entry that row is read back as.\<close>

lemma log_stores:
  assumes "DatabaseAuditLogger_log s env entry = Inr (i, s1)"
  shows "\<exists>a t q ss r.
           actor_uuid env (actor_id entry) = Inr a
         \<and> UUID (tenant_id entry) = Some t
         \<and> UUID (request_id entry) = Some q
         \<and> session_uuid (session_id entry) = Inr ss
         \<and> audit_logs s1 = audit_logs s @ [r]
         \<and> log_tenant_id r = t
         \<and> entry_of_log r
             = Inr (entry\<lparr>actor_id := str_uuid a, tenant_id := str_uuid t,
                          request_id := str_uuid q,
                          session_id := map_option str_uuid ss\<rparr>)"
proof -
  from assms obtain a t q ss where
    p: "actor_uuid env (actor_id entry) = Inr a" "UUID (tenant_id entry) = Some t"
       "UUID (request_id entry) = Some q" "session_uuid (session_id entry) = Inr ss"
    by (auto simp: DatabaseAuditLogger_log_def split: sum.splits option.splits)
  define r where "r =
     \<lparr>log_id = uuid4_id env, log_actor_id = a, log_actor_type = actor_type entry,
      log_actor_ip = actor_ip entry, log_action = AuditAction_value (action entry),
      log_action_detail = action_detail entry, log_resource_type = resource_type entry,
      log_resource_id = resource_id entry, log_tenant_id = t, log_request_id = q,
      log_session_id = ss, log_timestamp = timestamp entry,
      log_old_values = old_values entry, log_new_values = new_values entry,
      log_success = success entry, log_error_message = error_message entry,
      log_data_classification = DataClassification_value (data_classification entry)\<rparr>"
  from assms p have "audit_logs s1 = audit_logs s @ [r]"
    by (auto simp: DatabaseAuditLogger_log_def Let_def r_def split: if_splits)
  moreover have "log_tenant_id r = t"
    by (simp add: r_def)
  moreover have "entry_of_log r
             = Inr (entry\<lparr>actor_id := str_uuid a, tenant_id := str_uuid t,
                          request_id := str_uuid q,
                          session_id := map_option str_uuid ss\<rparr>)"
    by (cases entry)
       (simp add: entry_of_log_def r_def AuditAction_of_value_value
          DataClassification_of_value_value map_option_case)
  ultimately show ?thesis
    using p by blast
qed

text \<open>A query by tenant alone, with a page that holds the whole table.\<close>

lemma query_whole_tenant:
  fixes s :: "'j db_state"
  assumes t: "UUID tenant = Some t"
    and ok: "\<forall>r \<in> set (audit_logs s). \<not> isl (entry_of_log r)"
    and lim: "int (length (audit_logs s)) \<le> limit"
  shows "\<exists>res. DatabaseAuditLogger_query s tenant None None None None None None limit 0
                 = Inr res
           \<and> (\<forall>r e. r \<in> set (audit_logs s) \<and> log_tenant_id r = t
                     \<and> entry_of_log r = Inr e \<longrightarrow> e \<in> set res)"
proof -
  define logs where "logs = sort_key (\<lambda>r. - log_timestamp r)
                              (filter (\<lambda>r. log_tenant_id r = t) (audit_logs s))"
  have "length logs \<le> length (audit_logs s)"
    by (simp add: logs_def)
  with lim have "length logs \<le> nat limit" "0 \<le> limit"
    by simp_all
  then have ex: "execute (audit_logs s) [\<lambda>r. log_tenant_id r = t] 0 limit = Inr logs"
    by (simp add: execute_def logs_def)
  have sub: "set logs \<subseteq> set (audit_logs s)"
    by (auto simp: logs_def)
  with ok have "\<forall>r \<in> set logs. \<not> isl (entry_of_log r)"
    by blast
  from entries_of_logs_total [OF this] obtain res where res: "entries_of_logs logs = Inr res"
    by blast
  have q: "DatabaseAuditLogger_query s tenant None None None None None None limit 0 = Inr res"
    by (simp add: DatabaseAuditLogger_query_def t where_actor_def truthy_def where_str_def
        where_opt_def ex res)
  have "e \<in> set res"
    if "r \<in> set (audit_logs s)" "log_tenant_id r = t" "entry_of_log r = Inr e" for r e
  proof -
    from that have "r \<in> set logs"
      by (simp add: logs_def)
    from entries_of_logs_member [OF res this that(3)] show ?thesis .
  qed
  with q show ?thesis
    by blast
qed

text \<open>
  Rows written by \<^verbatim>\<open>log\<close> read back, so a table filled through the interface
  alone reads back in full; and a query with a tenant and an actor that parse, and an
  offset and a limit that are not negative, returns on such a table.
\<close>

lemma api_step_readable:
  assumes "\<forall>r \<in> set (audit_logs s). \<not> isl (entry_of_log r)"
  shows "\<forall>r \<in> set (audit_logs (api_step s c)). \<not> isl (entry_of_log r)"
proof (cases c)
  case (Log env entry)
  show ?thesis
  proof (cases "DatabaseAuditLogger_log s env entry")
    case (Inl e)
    with Log assms show ?thesis by simp
  next
    case (Inr p)
    obtain i s1 where p: "p = (i, s1)"
      by (cases p)
    from log_stores [OF Inr [unfolded p]] obtain r e where
      "audit_logs s1 = audit_logs s @ [r]" "entry_of_log r = Inr e"
      by blast
    with Log Inr p assms show ?thesis by auto
  qed
next
  case (Query tenant actor rtype rid act t0 t1 limit offset)
  with assms show ?thesis by simp
qed

lemma api_run_readable:
  "\<forall>r \<in> set (audit_logs s). \<not> isl (entry_of_log r)
   \<Longrightarrow> \<forall>r \<in> set (audit_logs (api_run s calls)). \<not> isl (entry_of_log r)"
  unfolding api_run_def
proof (induction calls arbitrary: s)
  case Nil
  then show ?case by simp
next
  case (Cons c calls)
  from api_step_readable [OF Cons.prems]
  have "\<forall>r \<in> set (audit_logs (api_step s c)). \<not> isl (entry_of_log r)" .
  from Cons.IH [OF this] show ?case by simp
qed

lemma query_returns:
  fixes s :: "'j db_state"
  assumes "UUID tenant = Some t"
    and "supplied actor = None \<or> (\<exists>x u. supplied actor = Some x \<and> UUID x = Some u)"
    and "0 \<le> limit" "0 \<le> offset"
    and "\<forall>r \<in> set (audit_logs s). \<not> isl (entry_of_log r)"
  shows "\<exists>res. DatabaseAuditLogger_query s tenant actor rtype rid act t0 t1 limit offset
                 = Inr res"
proof -
  from assms(2) obtain cl :: "('j AuditLog \<Rightarrow> bool) list" where
    cl: "where_actor actor = Inr cl"
    by (auto simp: where_actor_def supplied_def truthy_def split: option.splits if_splits)
  define stmt where "stmt = [\<lambda>r. log_tenant_id r = t] @ cl
                     @ where_str rtype (\<lambda>v r. log_resource_type r = v)
                     @ where_str rid (\<lambda>v r. log_resource_id r = v)
                     @ where_opt act (\<lambda>a r. log_action r = AuditAction_value a)
                     @ where_opt t0 (\<lambda>t0 r. log_timestamp r \<ge> t0)
                     @ where_opt t1 (\<lambda>t1 r. log_timestamp r \<le> t1)"
  define logs where "logs = take (nat limit) (drop (nat offset)
                              (sort_key (\<lambda>r. - log_timestamp r)
                                 (filter (\<lambda>r. list_all (\<lambda>p. p r) stmt) (audit_logs s))))"
  from assms(3,4) have logs: "execute (audit_logs s) stmt offset limit = Inr logs"
    by (simp add: execute_def logs_def)
  have sub: "set logs \<subseteq> set (audit_logs s)"
  proof
    fix r assume "r \<in> set logs"
    then have "r \<in> set (sort_key (\<lambda>r. - log_timestamp r)
                         (filter (\<lambda>r. list_all (\<lambda>p. p r) stmt) (audit_logs s)))"
      unfolding logs_def by (meson in_set_dropD in_set_takeD)
    then show "r \<in> set (audit_logs s)"
      by simp
  qed
  from sub assms(5) have "\<forall>r \<in> set logs. \<not> isl (entry_of_log r)"
    by blast
  from entries_of_logs_total [OF this] obtain res where "entries_of_logs logs = Inr res"
    by blast
  with logs show ?thesis
    by (simp add: DatabaseAuditLogger_query_def assms(1) cl stmt_def)
qed

text \<open>
  C2, as amended. Let \<^verbatim>\<open>log\<close> store an entry in a table whose rows all read back,
  and let the tenant of the entry then query with no other filter and a limit that
  holds the table. The query returns, and among its results is the entry with every
  field as it was written, except that the four fields stored as UUIDs come back in the
  canonical text of the UUID stored: \<^verbatim>\<open>tenant_id\<close>, \<^verbatim>\<open>request_id\<close> and a non-empty
  \<^verbatim>\<open>session_id\<close> as the text of the UUID they were parsed to, an empty
  \<^verbatim>\<open>session_id\<close> as absent, and \<^verbatim>\<open>actor_id\<close> as the text of the UUID it was
  parsed to or, for the actor \<^verbatim>\<open>anonymous\<close>, of the UUID generated in its place.
  When these four fields were written in canonical text already, the entry itself is
  among the results.
\<close>

theorem log_query_round_trip:
  fixes s :: "'j db_state"
  assumes "DatabaseAuditLogger_log s env entry = Inr (i, s1)"
    and "\<forall>r \<in> set (audit_logs s). \<not> isl (entry_of_log r)"
    and "int (length (audit_logs s1)) \<le> limit"
  shows "\<exists>a t q ss res.
           actor_uuid env (actor_id entry) = Inr a
         \<and> UUID (tenant_id entry) = Some t
         \<and> UUID (request_id entry) = Some q
         \<and> session_uuid (session_id entry) = Inr ss
         \<and> DatabaseAuditLogger_query s1 (tenant_id entry) None None None None None None
               limit 0 = Inr res
         \<and> entry\<lparr>actor_id := str_uuid a, tenant_id := str_uuid t,
                  request_id := str_uuid q, session_id := map_option str_uuid ss\<rparr>
             \<in> set res
         \<and> (str_uuid a = actor_id entry \<and> str_uuid t = tenant_id entry
              \<and> str_uuid q = request_id entry \<and> map_option str_uuid ss = session_id entry
              \<longrightarrow> entry \<in> set res)"
proof -
  from log_stores [OF assms(1)] obtain a t q ss r where
    p: "actor_uuid env (actor_id entry) = Inr a" "UUID (tenant_id entry) = Some t"
       "UUID (request_id entry) = Some q" "session_uuid (session_id entry) = Inr ss"
    and rows: "audit_logs s1 = audit_logs s @ [r]"
    and rt: "log_tenant_id r = t"
    and readback: "entry_of_log r
                 = Inr (entry\<lparr>actor_id := str_uuid a, tenant_id := str_uuid t,
                              request_id := str_uuid q,
                              session_id := map_option str_uuid ss\<rparr>)"
    by blast
  have ok: "\<forall>r \<in> set (audit_logs s1). \<not> isl (entry_of_log r)"
    using assms(2) readback by (auto simp: rows)
  from query_whole_tenant [OF p(2) ok assms(3)] obtain res where
    res: "DatabaseAuditLogger_query s1 (tenant_id entry) None None None None None None
            limit 0 = Inr res"
    and all: "\<And>r e. r \<in> set (audit_logs s1) \<Longrightarrow> log_tenant_id r = t
                \<Longrightarrow> entry_of_log r = Inr e \<Longrightarrow> e \<in> set res"
    by blast
  have "r \<in> set (audit_logs s1)"
    by (simp add: rows)
  from all [OF this rt readback]
  have mem: "entry\<lparr>actor_id := str_uuid a, tenant_id := str_uuid t,
                   request_id := str_uuid q, session_id := map_option str_uuid ss\<rparr>
               \<in> set res" .
  have "entry \<in> set res"
    if "str_uuid a = actor_id entry \<and> str_uuid t = tenant_id entry
        \<and> str_uuid q = request_id entry \<and> map_option str_uuid ss = session_id entry"
    using mem that by simp
  with p res mem show ?thesis
    by blast
qed

text \<open>
  A fifth entry is logged into the example table and its tenant reads the table back:
  the entry is returned as it was written.
\<close>

theorem log_query_round_trip_witness:
  "map_sum id fst
     (DatabaseAuditLogger_log example_db (example_env 5) (example_entry carol alpha 200))
   = Inr (str_uuid 5)
   \<and> DatabaseAuditLogger_query
        (api_step example_db (Log (example_env 5) (example_entry carol alpha 200)))
        alpha None None None None None None 100 0
      = Inr [example_entry carol alpha 200, example_entry carol alpha 120,
             example_entry carol alpha 60, example_entry carol alpha 0]"
proof -
  define s1 where "s1 = example_db\<lparr>audit_logs := audit_logs example_db
                             @ [example_row 5 0xaaaaaaaaaaaa4aaa8aaaaaaaaaaaaaaa 200],
                           emitted := emitted example_db
                             @ [\<lparr>levelname = INFO, msg = ''Audit logged''\<rparr>]\<rparr>"
  have h: "DatabaseAuditLogger_log example_db (example_env 5) (example_entry carol alpha 200)
             = Inr (str_uuid 5, s1)"
    unfolding s1_def by (rule log_example [OF UUID_alpha])
  have ok: "\<forall>r \<in> set (audit_logs example_db). \<not> isl (entry_of_log r)"
    by (simp add: example_db_rows entry_of_example_row)
  have lim: "int (length (audit_logs s1)) \<le> 100"
    by (simp add: s1_def example_db_rows)
  have st: "api_step example_db (Log (example_env 5) (example_entry carol alpha 200)) = s1"
    by (simp add: h)
  have rows: "audit_logs s1 =
     [example_row 1 0xaaaaaaaaaaaa4aaa8aaaaaaaaaaaaaaa 0,
      example_row 2 0xaaaaaaaaaaaa4aaa8aaaaaaaaaaaaaaa 60,
      example_row 3 0xbbbbbbbbbbbb4bbb8bbbbbbbbbbbbbbb 100,
      example_row 4 0xaaaaaaaaaaaa4aaa8aaaaaaaaaaaaaaa 120,
      example_row 5 0xaaaaaaaaaaaa4aaa8aaaaaaaaaaaaaaa 200]"
    by (simp add: s1_def example_db_rows)
  have q: "DatabaseAuditLogger_query s1 alpha None None None None None None 100 0
      = Inr [example_entry carol alpha 200, example_entry carol alpha 120,
             example_entry carol alpha 60, example_entry carol alpha 0]"
    by (simp add: DatabaseAuditLogger_query_def where_actor_def where_str_def
        where_opt_def truthy_def execute_def rows example_row_fields
        entry_of_example_row uuid_evals)
  from log_query_round_trip [OF h ok lim] show ?thesis
    using h q st by simp
qed

text \<open>
  The claim as stated fails for the actor \<^verbatim>\<open>anonymous\<close>: the entry is stored under
  a generated UUID and comes back with that UUID's text as its \<^verbatim>\<open>actor_id\<close>.
\<close>

theorem round_trip_anonymous_counterexample:
  "map_sum id fst
     (DatabaseAuditLogger_log empty_db (example_env 1) (example_entry ''anonymous'' alpha 0))
   = Inr (str_uuid 1)
   \<and> DatabaseAuditLogger_query
        (api_step empty_db (Log (example_env 1) (example_entry ''anonymous'' alpha 0)))
        alpha None None None None None None 100 0
      = Inr [example_entry ''eeeeeeee-eeee-4eee-8eee-eeeeeeeeeeee'' alpha 0]
   \<and> actor_id (example_entry ''eeeeeeee-eeee-4eee-8eee-eeeeeeeeeeee'' alpha 0)
      \<noteq> actor_id (example_entry ''anonymous'' alpha 0)"
proof -
  define s1 where "s1 = empty_db\<lparr>audit_logs := audit_logs empty_db
                 @ [(example_row 1 0xaaaaaaaaaaaa4aaa8aaaaaaaaaaaaaaa 0)
                      \<lparr>log_actor_id := 0xeeeeeeeeeeee4eee8eeeeeeeeeeeeeee\<rparr>],
               emitted := emitted empty_db
                 @ [\<lparr>levelname = INFO, msg = ''Audit logged''\<rparr>]\<rparr>"
  have h: "DatabaseAuditLogger_log empty_db (example_env 1)
             (example_entry ''anonymous'' alpha 0) = Inr (str_uuid 1, s1)"
    by (simp add: s1_def DatabaseAuditLogger_log_def actor_uuid_def session_uuid_def
        truthy_def example_env_def example_entry_def example_row_def uuid_evals)
  have r: "entry_of_log ((example_row 1 0xaaaaaaaaaaaa4aaa8aaaaaaaaaaaaaaa 0 :: string AuditLog)
                           \<lparr>log_actor_id := 0xeeeeeeeeeeee4eee8eeeeeeeeeeeeeee\<rparr>)
           = Inr (example_entry ''eeeeeeee-eeee-4eee-8eee-eeeeeeeeeeee'' alpha 0)"
    by (simp add: entry_of_log_def example_row_def example_entry_def
        AuditAction_of_value_def DataClassification_of_value_def uuid_evals)
  have q: "DatabaseAuditLogger_query s1 alpha None None None None None None 100 0
      = Inr [example_entry ''eeeeeeee-eeee-4eee-8eee-eeeeeeeeeeee'' alpha 0]"
    by (simp add: DatabaseAuditLogger_query_def where_actor_def where_str_def
        where_opt_def truthy_def execute_def s1_def empty_db_def example_row_fields r
        uuid_evals)
  have "actor_id (example_entry ''eeeeeeee-eeee-4eee-8eee-eeeeeeeeeeee'' alpha 0)
      \<noteq> actor_id (example_entry ''anonymous'' alpha 0)"
    by (simp add: example_entry_def)
  then show ?thesis
    using h q by simp
qed

end
